theory Spec2Isabelle
  imports Main
begin

section \<open>Data model of \<open>torch/nn/cloneable.h\<close>\<close>

text \<open>
  A \<open>Tensor\<close> is a handle with reference semantics: copying a tensor copies the handle,
  and both handles read and write the same storage. The storage therefore lives in an
  explicit store, and the module holds handles. \<open>allocated\<close> counts the handles given
  out so far; a tensor factory called by \<open>reset()\<close> takes the next one.
\<close>

type_synonym tensor = nat
type_synonym tensor_data = "int list"

record state =
  storage :: "tensor \<Rightarrow> tensor_data"
  allocated :: nat

text \<open>
  \<open>Module\<close> with the three registries \<open>parameters_\<close>, \<open>buffers_\<close>, \<open>children_\<close>
  (each an insertion-ordered dictionary keyed by name). \<open>type_id\<close> is the dynamic type of
  the object, that is the \<open>Derived\<close> its \<open>Cloneable<Derived>\<close> base was instantiated
  with; \<open>members\<close> stands for the value members a derived class adds (its options),
  which the copy constructor duplicates. Child modules are owned by their parent and
  modelled by value. The selectors are the fields \<open>parameters_\<close>, \<open>buffers_\<close> and
  \<open>children_\<close> (a name cannot end in an underscore here).
\<close>

datatype module = Module
  (type_id: string)
  (members: "int list")
  (parameters: "(string \<times> tensor) list")
  (buffers: "(string \<times> tensor) list")
  (children: "(string \<times> module) list")

text \<open>
  The errors of this file are all raised by \<open>AT_CHECK\<close> with a message. The three count
  checks of \<open>clone()\<close> are \<open>StructuralMismatch\<close>, the check of \<open>clone_()\<close> is
  \<open>TypeMismatch\<close>. \<open>NoSuchKey\<close> is the failure of the dictionary lookup
  \<open>operator[]\<close> on a name that is not stored.
\<close>

datatype error = StructuralMismatch string | TypeMismatch string | NoSuchKey string

type_synonym 'a result = "(error + 'a) \<times> state"

subsection \<open>The ordered dictionary\<close>

text \<open>
  Modelled from the spec: \<open>OrderedDict\<close> is declared outside this file. The spec asks
  of it key-based lookup and iteration in a stable order, with names unique within one
  mapping. It is an association list in insertion order; \<open>od_get\<close> is \<open>operator[]\<close>,
  which has no value to return for a missing name and fails.
\<close>

definition od_size :: "(string \<times> 'v) list \<Rightarrow> nat" where
  "od_size d = length d"

definition od_keys :: "(string \<times> 'v) list \<Rightarrow> string list" where
  "od_keys d = map fst d"

definition od_get :: "(string \<times> 'v) list \<Rightarrow> string \<Rightarrow> error + 'v" where
  "od_get d key = (case map_of d key of None \<Rightarrow> Inl (NoSuchKey key) | Some v \<Rightarrow> Inr v)"

text \<open>Assignment through the reference \<open>operator[]\<close> returned: the entry keeps its place.\<close>

fun od_assign :: "(string \<times> 'v) list \<Rightarrow> string \<Rightarrow> 'v \<Rightarrow> (string \<times> 'v) list" where
  "od_assign [] key v = []"
| "od_assign ((k, w) # d) key v =
     (if k = key then (k, v) # d else (k, w) # od_assign d key v)"

subsection \<open>Tensor copy\<close>

text \<open>
  Modelled from the spec: \<open>Tensor::copy_\<close> is declared outside this file; the spec
  describes it as an element-wise data copy from the source into the destination's
  storage, complete when \<open>clone()\<close> returns. \<open>copy_data dst src\<close> is
  \<open>dst.data().copy_(src.data(), /*non_blocking=*/true)\<close>.
\<close>

definition copy_data :: "tensor \<Rightarrow> tensor \<Rightarrow> state \<Rightarrow> state" where
  "copy_data dst src s = s\<lparr>storage := (storage s)(dst := storage s src)\<rparr>"

subsection \<open>The messages of the four checks\<close>

definition parameters_message :: string where
  "parameters_message =
     ''The cloned module does not have the same number of '' @
     ''parameters as the original module after calling reset(). '' @
     ''Are you sure you called register_parameter() inside reset() '' @
     ''and not the constructor?''"

definition buffers_message :: string where
  "buffers_message =
     ''The cloned module does not have the same number of '' @
     ''buffers as the original module after calling reset(). '' @
     ''Are you sure you called register_buffer() inside reset() '' @
     ''and not the constructor?''"

definition children_message :: string where
  "children_message =
     ''The cloned module does not have the same number of '' @
     ''child modules as the original module after calling reset(). '' @
     ''Are you sure you called register_module() inside reset() '' @
     ''and not the constructor?''"

definition type_message :: string where
  "type_message =
     ''Attempted to clone submodule, but it is of a '' @
     ''different type than the submodule it was to be cloned into''"

subsection \<open>\<open>Cloneable::clone\<close> and \<open>Cloneable::clone_\<close>\<close>

text \<open>
  \<open>reset()\<close> is pure virtual: each derived class supplies it. It is a parameter of the
  model, a function from the object it is called on and the store to the object and store
  it leaves.
\<close>

type_synonym reset_fn = "module \<Rightarrow> state \<Rightarrow> module \<times> state"

text \<open>
  Line 38, \<open>copy->reset()\<close>. A member function changes the members of the object it
  is called on, never its dynamic type: the object keeps its \<open>type_id\<close>.
\<close>

definition call_reset :: "reset_fn \<Rightarrow> module \<Rightarrow> state \<Rightarrow> module \<times> state" where
  "call_reset reset obj s =
     (let (obj', s') = reset obj s
      in (Module (type_id obj) (members obj') (parameters obj') (buffers obj') (children obj'), s'))"

text \<open>Lines 35 to 37: the three \<open>clear()\<close> calls on the copy.\<close>

definition clear_registries :: "module \<Rightarrow> module" where
  "clear_registries m = Module (type_id m) (members m) [] [] []"

text \<open>
  The loops of lines 45 to 48 and 55 to 58: for each entry of the original's dictionary,
  in order, look the name up in the copy's dictionary and copy the data over.
\<close>

fun copy_tensors :: "(string \<times> tensor) list \<Rightarrow> (string \<times> tensor) list \<Rightarrow> state \<Rightarrow> unit result" where
  "copy_tensors [] dst s = (Inr (), s)"
| "copy_tensors ((key, t) # rest) dst s =
     (case od_get dst key of
        Inl e \<Rightarrow> (Inl e, s)
      | Inr d \<Rightarrow> copy_tensors rest dst (copy_data d t s))"

text \<open>
  \<open>std::dynamic_pointer_cast<Derived>\<close> on the result of \<open>clone()\<close>: the null pointer
  unless the object's dynamic type is \<open>Derived\<close>.
\<close>

definition dynamic_pointer_cast :: "string \<Rightarrow> module \<Rightarrow> module option" where
  "dynamic_pointer_cast derived m = (if type_id m = derived then Some m else None)"

definition set_children :: "module \<Rightarrow> (string \<times> module) list \<Rightarrow> module" where
  "set_children m cs = Module (type_id m) (members m) (parameters m) (buffers m) cs"

text \<open>
  \<open>clone\<close> is lines 32 to 69, \<open>clone_children\<close> the loop of lines 65 to 67 (with the
  copy it works on), \<open>clone_into\<close> is \<open>clone_\<close>, lines 72 to 82, where \<open>this\<close> is the child of the copy
  that is assigned to and the value returned is what the assignment leaves in it.
\<close>

fun clone :: "reset_fn \<Rightarrow> module \<Rightarrow> state \<Rightarrow> module result"
  and clone_children :: "reset_fn \<Rightarrow> (string \<times> module) list \<Rightarrow> module \<Rightarrow> state \<Rightarrow> module result"
  and clone_into :: "reset_fn \<Rightarrow> module \<Rightarrow> module \<Rightarrow> state \<Rightarrow> module result"
where
  "clone reset (Module ty mem ps bs cs) s =
     (let self = Module ty mem ps bs cs;
          (copy, s1) = call_reset reset (clear_registries self) s
      in if od_size (parameters copy) \<noteq> od_size ps
         then (Inl (StructuralMismatch parameters_message), s1)
         else (case copy_tensors ps (parameters copy) s1 of
           (Inl e, s2) \<Rightarrow> (Inl e, s2)
         | (Inr _, s2) \<Rightarrow>
             if od_size (buffers copy) \<noteq> od_size bs
             then (Inl (StructuralMismatch buffers_message), s2)
             else (case copy_tensors bs (buffers copy) s2 of
               (Inl e, s3) \<Rightarrow> (Inl e, s3)
             | (Inr _, s3) \<Rightarrow>
                 if od_size (children copy) \<noteq> od_size cs
                 then (Inl (StructuralMismatch children_message), s3)
                 else clone_children reset cs copy s3)))"
| "clone_children reset [] copy s = (Inr copy, s)"
| "clone_children reset ((key, child) # rest) copy s =
     (case od_get (children copy) key of
        Inl e \<Rightarrow> (Inl e, s)
      | Inr this \<Rightarrow>
          (case clone_into reset this child s of
             (Inl e, s') \<Rightarrow> (Inl e, s')
           | (Inr this', s') \<Rightarrow>
               clone_children reset rest
                 (set_children copy (od_assign (children copy) key this')) s'))"
| "clone_into reset this other s =
     (case clone reset other s of
        (Inl e, s') \<Rightarrow> (Inl e, s')
      | (Inr c, s') \<Rightarrow>
          (case dynamic_pointer_cast (type_id this) c of
             None \<Rightarrow> (Inl (TypeMismatch type_message), s')
           | Some c' \<Rightarrow> (Inr c', s')))"


section \<open>Storage: what is written, what is fresh\<close>

text \<open>The tensors of a module tree: its parameters and buffers, and those of its children.\<close>

fun tensors_of :: "module \<Rightarrow> tensor set" where
  "tensors_of (Module ty mem ps bs cs) =
     snd ` set ps \<union> snd ` set bs \<union> (\<Union>x \<in> set cs. tensors_of (snd x))"

text \<open>
  \<open>extends s s'\<close>: from \<open>s\<close> to \<open>s'\<close> tensors were only added; every tensor of \<open>s\<close>
  holds in \<open>s'\<close> the data it held in \<open>s\<close>.
\<close>

definition extends :: "state \<Rightarrow> state \<Rightarrow> bool" where
  "extends s s' = (allocated s \<le> allocated s' \<and> (\<forall>a < allocated s. storage s' a = storage s a))"

text \<open>
  The contract of \<open>reset()\<close> (lines 25 and 26: it must perform initialization of all
  members with reference semantics, most importantly parameters, buffers and
  submodules): called on an object with empty registries, it registers tensors it has just
  made, each once, and writes to no tensor that existed before.
\<close>

definition fresh_storage :: "reset_fn \<Rightarrow> bool" where
  "fresh_storage reset =
     (\<forall>ty mem s. let (c, s') = reset (Module ty mem [] [] []) s
        in extends s s' \<and> tensors_of c \<subseteq> {allocated s ..< allocated s'} \<and>
           distinct (map snd (parameters c) @ map snd (buffers c)))"

text \<open>
  Modelled from the spec: an in-place mutation of a tensor after \<open>clone()\<close> has returned
  (the spec's storage independence) replaces the data its storage holds.
\<close>

definition write_data :: "tensor \<Rightarrow> tensor_data \<Rightarrow> state \<Rightarrow> state" where
  "write_data t d s = s\<lparr>storage := (storage s)(t := d)\<rparr>"

section \<open>Shape\<close>

text \<open>
  The shape of a module is its three sets of names and, under each child name, the
  shape of the child. \<open>same_shape\<close> compares two modules by shape.
\<close>

definition same_names :: "module \<Rightarrow> module \<Rightarrow> bool" where
  "same_names a b =
     (set (od_keys (parameters a)) = set (od_keys (parameters b)) \<and>
      set (od_keys (buffers a)) = set (od_keys (buffers b)) \<and>
      set (od_keys (children a)) = set (od_keys (children b)))"



text \<open>
  A correct \<open>reset()\<close> for the module \<open>m\<close>: called on the copy with empty registries,
  in any store, it registers the parameter, buffer and child names \<open>m\<close> has, each once,
  every child with the type of \<open>m\<close>'s child of that name; and so for every child of
  \<open>m\<close>.
\<close>

fun correct_reset :: "reset_fn \<Rightarrow> module \<Rightarrow> bool" where
  "correct_reset reset (Module ty mem ps bs cs) =
     ((\<forall>s. let copy = fst (call_reset reset (clear_registries (Module ty mem ps bs cs)) s)
         in same_names copy (Module ty mem ps bs cs) \<and>
            distinct (od_keys (parameters copy)) \<and> distinct (od_keys (buffers copy)) \<and>
            distinct (od_keys (children copy)) \<and>
            (\<forall>x \<in> set cs. \<forall>y \<in> set (children copy).
               fst x = fst y \<longrightarrow> type_id (snd y) = type_id (snd x))) \<and>
      (\<forall>x \<in> set cs. correct_reset reset (snd x)))"


section \<open>Example module classes\<close>

text \<open>
  The module classes of the spec's scenarios, with the registration calls their
  \<open>reset()\<close> makes. \<open>new_tensor\<close> is a tensor factory: it takes the next handle and
  fills its storage. \<open>register_parameter\<close>, \<open>register_buffer\<close> and
  \<open>register_module\<close> append an entry to the registry of the module.
\<close>

definition new_tensor :: "tensor_data \<Rightarrow> state \<Rightarrow> tensor \<times> state" where
  "new_tensor d s =
     (allocated s, \<lparr>storage = (storage s)(allocated s := d), allocated = Suc (allocated s)\<rparr>)"

definition register_parameter :: "string \<Rightarrow> tensor_data \<Rightarrow> module \<times> state \<Rightarrow> module \<times> state" where
  "register_parameter name d ms =
     (let (t, s') = new_tensor d (snd ms); m = fst ms
      in (Module (type_id m) (members m) (parameters m @ [(name, t)]) (buffers m) (children m), s'))"

definition register_buffer :: "string \<Rightarrow> tensor_data \<Rightarrow> module \<times> state \<Rightarrow> module \<times> state" where
  "register_buffer name d ms =
     (let (t, s') = new_tensor d (snd ms); m = fst ms
      in (Module (type_id m) (members m) (parameters m) (buffers m @ [(name, t)]) (children m), s'))"

definition register_module :: "string \<Rightarrow> module \<Rightarrow> module \<Rightarrow> module" where
  "register_module name child m =
     Module (type_id m) (members m) (parameters m) (buffers m) (children m @ [(name, child)])"

text \<open>
  \<open>Linear\<close> registers \<open>weight\<close> and \<open>bias\<close>. \<open>Container\<close> registers one child
  \<open>inner\<close>, a new \<open>Linear\<close>, whose constructor calls its own \<open>reset()\<close>.
  \<open>BatchNorm\<close> registers a parameter \<open>weight\<close> and a buffer \<open>running_mean\<close>.
  \<open>Buggy\<close> is the spec's buggy module: its constructor registers two parameters, its
  \<open>reset()\<close> one. \<open>Stats\<close> registers its parameter in \<open>reset()\<close> and its buffer in
  the constructor only. \<open>Wrapper\<close> registers its child as \<open>layer\<close> in \<open>reset()\<close>
  where its constructor called it \<open>inner\<close>. Any other class registers nothing.
\<close>

definition linear_reset :: reset_fn where
  "linear_reset m s =
     register_parameter ''bias'' [0] (register_parameter ''weight'' [0, 0] (m, s))"

definition example_reset :: reset_fn where
  "example_reset m s =
     (if type_id m = ''Linear'' then linear_reset m s
      else if type_id m = ''Container'' then
        (let (inner, s') = linear_reset (Module ''Linear'' [] [] [] []) s
         in (register_module ''inner'' inner m, s'))
      else if type_id m = ''Buggy'' then register_parameter ''a'' [0] (m, s)
      else if type_id m = ''BatchNorm'' then
        register_buffer ''running_mean'' [0] (register_parameter ''weight'' [1] (m, s))
      else if type_id m = ''Stats'' then register_parameter ''scale'' [0] (m, s)
      else if type_id m = ''Wrapper'' then
        (let (inner, s') = linear_reset (Module ''Linear'' [] [] [] []) s
         in (register_module ''layer'' inner m, s'))
      else (m, s))"

text \<open>Objects of these classes, as their constructors and some training left them.\<close>

definition example_state :: state where
  "example_state =
     \<lparr>storage = (\<lambda>_. [])(0 := [1, 2], 1 := [3], 2 := [4], 3 := [5]), allocated = 4\<rparr>"

definition example_linear :: module where
  "example_linear = Module ''Linear'' [] [(''weight'', 0), (''bias'', 1)] [] []"

definition example_container :: module where
  "example_container = Module ''Container'' [] [] [] [(''inner'', example_linear)]"

definition example_batchnorm :: module where
  "example_batchnorm = Module ''BatchNorm'' [] [(''weight'', 2)] [(''running_mean'', 3)] []"

definition example_buggy :: module where
  "example_buggy = Module ''Buggy'' [] [(''a'', 0), (''b'', 1)] [] []"

definition example_stats :: module where
  "example_stats = Module ''Stats'' [] [(''scale'', 2)] [(''running_mean'', 3)] []"

definition example_wrapper :: module where
  "example_wrapper = Module ''Wrapper'' [] [] [] [(''inner'', example_linear)]"

text \<open>A \<open>Container\<close> whose slot \<open>inner\<close> holds a \<open>Container\<close>, not a \<open>Linear\<close>.\<close>

definition example_mistyped :: module where
  "example_mistyped = Module ''Container'' [] [] [] [(''inner'', example_container)]"


text \<open>
  A class that registers nothing in \<open>reset()\<close>, with a child its constructor registered.
\<close>

definition example_plain :: module where
  "example_plain = Module ''Plain'' [] [] [] [(''inner'', example_linear)]"

section \<open>\<open>clone\<close> over a heap of module objects\<close>

text \<open>
  \<open>children_\<close> holds shared pointers to \<open>Module\<close> objects, and \<open>clone_\<close> assigns to
  the object its \<open>this\<close> points to. Which object that is depends on what \<open>reset()\<close>
  registered in the copy. To say what \<open>clone()\<close> leaves of the objects that existed
  before the call, modules are objects in a heap here, a child is a reference, and the
  tensor store of the sections above is a part of the heap. \<open>next_object\<close> counts the
  objects made so far.
\<close>

type_synonym module_ref = nat

record object =
  obj_type :: string
  obj_members :: "int list"
  obj_parameters :: "(string \<times> tensor) list"
  obj_buffers :: "(string \<times> tensor) list"
  obj_children :: "(string \<times> module_ref) list"

record heap =
  store :: state
  objects :: "module_ref \<Rightarrow> object"
  next_object :: nat

text \<open>\<open>reset()\<close> is called on an object and changes the heap.\<close>

type_synonym heap_reset_fn = "module_ref \<Rightarrow> heap \<Rightarrow> heap"

text \<open>
  Line 34, \<open>std::make_shared<Derived>(self)\<close>: a new object with the fields of
  \<open>self\<close>; the tensor handles and child pointers in them are shared with \<open>self\<close>.
\<close>

definition make_shared :: "object \<Rightarrow> heap \<Rightarrow> module_ref \<times> heap" where
  "make_shared obj h =
     (next_object h, h\<lparr>objects := (objects h)(next_object h := obj), next_object := Suc (next_object h)\<rparr>)"

text \<open>Lines 35 to 37.\<close>

definition heap_clear_registries :: "module_ref \<Rightarrow> heap \<Rightarrow> heap" where
  "heap_clear_registries a h =
     h\<lparr>objects := (objects h)(a := (objects h a)\<lparr>obj_parameters := [], obj_buffers := [], obj_children := []\<rparr>)\<rparr>"

text \<open>Line 38. The object \<open>reset()\<close> is called on keeps its dynamic type.\<close>

definition heap_call_reset :: "heap_reset_fn \<Rightarrow> module_ref \<Rightarrow> heap \<Rightarrow> heap" where
  "heap_call_reset reset a h =
     (let h' = reset a h
      in h'\<lparr>objects := (objects h')(a := (objects h' a)\<lparr>obj_type := obj_type (objects h a)\<rparr>)\<rparr>)"

text \<open>The copy loops of lines 45 to 48 and 55 to 58, on the tensor store of the heap.\<close>

definition heap_copy_tensors ::
  "(string \<times> tensor) list \<Rightarrow> (string \<times> tensor) list \<Rightarrow> heap \<Rightarrow> (error + unit) \<times> heap" where
  "heap_copy_tensors src dst h =
     (case copy_tensors src dst (store h) of (r, s') \<Rightarrow> (r, h\<lparr>store := s'\<rparr>))"

text \<open>
  \<open>heap_clone\<close> is lines 32 to 69 for the object \<open>this\<close>, \<open>heap_clone_children\<close> the
  loop of lines 65 to 67, \<open>heap_clone_into\<close> is \<open>clone_\<close>, lines 72 to 82. The
  dictionaries of \<open>this\<close> are read where the code reads them, after \<open>reset()\<close>; each
  loop runs over the dictionary as it is when the loop starts, and the child of the copy is
  looked up in the heap of that iteration. The assignment of line 81 gives the object
  \<open>this\<close> the fields of the clone. The recursion follows child references, so the first
  argument bounds the nesting of \<open>clone()\<close> calls: \<open>None\<close> is a run that needs more.
\<close>

fun heap_clone :: "nat \<Rightarrow> heap_reset_fn \<Rightarrow> module_ref \<Rightarrow> heap \<Rightarrow> ((error + module_ref) \<times> heap) option"
  and heap_clone_children ::
    "nat \<Rightarrow> heap_reset_fn \<Rightarrow> (string \<times> module_ref) list \<Rightarrow> module_ref \<Rightarrow> heap \<Rightarrow> ((error + unit) \<times> heap) option"
  and heap_clone_into ::
    "nat \<Rightarrow> heap_reset_fn \<Rightarrow> module_ref \<Rightarrow> module_ref \<Rightarrow> heap \<Rightarrow> ((error + unit) \<times> heap) option"
where
  "heap_clone 0 reset this h = None"
| "heap_clone (Suc n) reset this h =
     (let (copy, h0) = make_shared (objects h this) h;
          h1 = heap_call_reset reset copy (heap_clear_registries copy h0)
      in if od_size (obj_parameters (objects h1 copy)) \<noteq> od_size (obj_parameters (objects h1 this))
         then Some (Inl (StructuralMismatch parameters_message), h1)
         else (case heap_copy_tensors (obj_parameters (objects h1 this)) (obj_parameters (objects h1 copy)) h1 of
           (Inl e, h2) \<Rightarrow> Some (Inl e, h2)
         | (Inr _, h2) \<Rightarrow>
             if od_size (obj_buffers (objects h2 copy)) \<noteq> od_size (obj_buffers (objects h2 this))
             then Some (Inl (StructuralMismatch buffers_message), h2)
             else (case heap_copy_tensors (obj_buffers (objects h2 this)) (obj_buffers (objects h2 copy)) h2 of
               (Inl e, h3) \<Rightarrow> Some (Inl e, h3)
             | (Inr _, h3) \<Rightarrow>
                 if od_size (obj_children (objects h3 copy)) \<noteq> od_size (obj_children (objects h3 this))
                 then Some (Inl (StructuralMismatch children_message), h3)
                 else (case heap_clone_children n reset (obj_children (objects h3 this)) copy h3 of
                   None \<Rightarrow> None
                 | Some (Inl e, h4) \<Rightarrow> Some (Inl e, h4)
                 | Some (Inr _, h4) \<Rightarrow> Some (Inr copy, h4)))))"
| "heap_clone_children n reset [] copy h = Some (Inr (), h)"
| "heap_clone_children n reset ((key, child) # rest) copy h =
     (case od_get (obj_children (objects h copy)) key of
        Inl e \<Rightarrow> Some (Inl e, h)
      | Inr this \<Rightarrow>
          (case heap_clone_into n reset this child h of
             None \<Rightarrow> None
           | Some (Inl e, h') \<Rightarrow> Some (Inl e, h')
           | Some (Inr _, h') \<Rightarrow> heap_clone_children n reset rest copy h'))"
| "heap_clone_into n reset this other h =
     (case heap_clone n reset other h of
        None \<Rightarrow> None
      | Some (Inl e, h') \<Rightarrow> Some (Inl e, h')
      | Some (Inr c, h') \<Rightarrow>
          if obj_type (objects h' c) \<noteq> obj_type (objects h' this)
          then Some (Inl (TypeMismatch type_message), h')
          else Some (Inr (), h'\<lparr>objects := (objects h')(this := objects h' c)\<rparr>))"


text \<open>
  \<open>heap_extends h h'\<close>: from \<open>h\<close> to \<open>h'\<close> objects and tensors were only added; every
  object of \<open>h\<close> has in \<open>h'\<close> the fields it had, every tensor of \<open>h\<close> the data it held.
\<close>

definition heap_extends :: "heap \<Rightarrow> heap \<Rightarrow> bool" where
  "heap_extends h h' =
     (extends (store h) (store h') \<and> next_object h \<le> next_object h' \<and>
      (\<forall>r < next_object h. objects h' r = objects h r))"

text \<open>
  The contract of \<open>reset()\<close> (lines 25 and 26) on the heap: called on an object with
  empty registries, it registers tensors and child modules it has just made, and writes to
  no tensor and to no other object that existed before.
\<close>

definition fresh_objects :: "heap_reset_fn \<Rightarrow> bool" where
  "fresh_objects reset =
     (\<forall>a h. a < next_object h \<and> obj_parameters (objects h a) = [] \<and>
        obj_buffers (objects h a) = [] \<and> obj_children (objects h a) = [] \<longrightarrow>
        (let h' = reset a h
         in extends (store h) (store h') \<and> next_object h \<le> next_object h' \<and>
            (\<forall>r < next_object h. r \<noteq> a \<longrightarrow> objects h' r = objects h r) \<and>
            snd ` set (obj_parameters (objects h' a)) \<subseteq> {allocated (store h) ..< allocated (store h')} \<and>
            snd ` set (obj_buffers (objects h' a)) \<subseteq> {allocated (store h) ..< allocated (store h')} \<and>
            snd ` set (obj_children (objects h' a)) \<subseteq> {next_object h ..< next_object h'}))"

text \<open>Lines 34 to 38 as one step: the heap in which the checks start.\<close>

definition reset_copy :: "heap_reset_fn \<Rightarrow> module_ref \<Rightarrow> heap \<Rightarrow> heap" where
  "reset_copy reset this h =
     heap_call_reset reset (next_object h)
       (heap_clear_registries (next_object h) (snd (make_shared (objects h this) h)))"

section \<open>Example classes on the heap\<close>

text \<open>
  \<open>add_parameter\<close> and \<open>add_child\<close> are \<open>register_parameter\<close> and
  \<open>register_module\<close> for a tensor or module that is given; \<open>fresh_parameter\<close> makes
  the tensor first. \<open>Linear\<close> and \<open>Container\<close> are the classes of the section above.
  \<open>Holder\<close> keeps the pointer to its child as a member and registers that child in
  \<open>reset()\<close>, where it should make a new one. \<open>Swap\<close> keeps its two tensors as
  members and registers them in \<open>reset()\<close>, the one under the name of the other.
\<close>

definition add_parameter :: "string \<Rightarrow> tensor \<Rightarrow> module_ref \<Rightarrow> heap \<Rightarrow> heap" where
  "add_parameter name t a h =
     h\<lparr>objects := (objects h)(a := (objects h a)\<lparr>obj_parameters := obj_parameters (objects h a) @ [(name, t)]\<rparr>)\<rparr>"

definition add_child :: "string \<Rightarrow> module_ref \<Rightarrow> module_ref \<Rightarrow> heap \<Rightarrow> heap" where
  "add_child name r a h =
     h\<lparr>objects := (objects h)(a := (objects h a)\<lparr>obj_children := obj_children (objects h a) @ [(name, r)]\<rparr>)\<rparr>"

definition fresh_parameter :: "string \<Rightarrow> tensor_data \<Rightarrow> module_ref \<Rightarrow> heap \<Rightarrow> heap" where
  "fresh_parameter name d a h =
     (let (t, s') = new_tensor d (store h) in add_parameter name t a (h\<lparr>store := s'\<rparr>))"

definition heap_linear_reset :: heap_reset_fn where
  "heap_linear_reset a h = fresh_parameter ''bias'' [0] a (fresh_parameter ''weight'' [0, 0] a h)"

definition heap_example_reset :: heap_reset_fn where
  "heap_example_reset a h =
     (if obj_type (objects h a) = ''Linear'' then heap_linear_reset a h
      else if obj_type (objects h a) = ''Container'' then
        (let (inner, h') = make_shared
               \<lparr>obj_type = ''Linear'', obj_members = [], obj_parameters = [], obj_buffers = [],
                obj_children = []\<rparr> h
         in add_child ''inner'' inner a (heap_linear_reset inner h'))
      else h)"

definition aliasing_reset :: heap_reset_fn where
  "aliasing_reset a h =
     (if obj_type (objects h a) = ''Holder'' then
        (case obj_members (objects h a) of
           [r] \<Rightarrow> add_child ''inner'' (nat r) a h
         | _ \<Rightarrow> h)
      else if obj_type (objects h a) = ''Swap'' then
        (case obj_members (objects h a) of
           [x, y] \<Rightarrow> add_parameter ''b'' (nat x) a (add_parameter ''a'' (nat y) a h)
         | _ \<Rightarrow> h)
      else heap_example_reset a h)"

definition example_linear_object :: object where
  "example_linear_object =
     \<lparr>obj_type = ''Linear'', obj_members = [],
      obj_parameters = [(''weight'', 0), (''bias'', 1)], obj_buffers = [], obj_children = []\<rparr>"

definition empty_object :: object where
  "empty_object =
     \<lparr>obj_type = [], obj_members = [], obj_parameters = [], obj_buffers = [], obj_children = []\<rparr>"

text \<open>Object 0 is a \<open>Container\<close>, object 1 its child \<open>inner\<close>, a \<open>Linear\<close>.\<close>

definition example_heap :: heap where
  "example_heap =
     \<lparr>store = example_state,
      objects = (\<lambda>_. empty_object)
        (0 := \<lparr>obj_type = ''Container'', obj_members = [], obj_parameters = [], obj_buffers = [],
               obj_children = [(''inner'', 1)]\<rparr>,
         1 := example_linear_object),
      next_object = 2\<rparr>"

text \<open>Object 0 is a \<open>Holder\<close> with the pointer to its child, object 1, as a member.\<close>

definition holder_heap :: heap where
  "holder_heap =
     \<lparr>store = example_state,
      objects = (\<lambda>_. empty_object)
        (0 := \<lparr>obj_type = ''Holder'', obj_members = [1], obj_parameters = [], obj_buffers = [],
               obj_children = [(''inner'', 1)]\<rparr>,
         1 := example_linear_object),
      next_object = 2\<rparr>"

text \<open>Object 0 is a \<open>Swap\<close> with its two tensors as members.\<close>

definition swap_heap :: heap where
  "swap_heap =
     \<lparr>store = example_state,
      objects = (\<lambda>_. empty_object)
        (0 := \<lparr>obj_type = ''Swap'', obj_members = [0, 1],
               obj_parameters = [(''a'', 0), (''b'', 1)], obj_buffers = [], obj_children = []\<rparr>),
      next_object = 1\<rparr>"

section \<open>Basic facts\<close>

lemmas example_defs = example_reset_def linear_reset_def register_parameter_def
  register_buffer_def register_module_def new_tensor_def call_reset_def
  clear_registries_def example_state_def example_linear_def example_container_def
  example_buggy_def example_stats_def example_wrapper_def example_mistyped_def
  example_plain_def example_batchnorm_def
  od_size_def od_get_def copy_data_def dynamic_pointer_cast_def set_children_def

text \<open>\<open>clone\<close> in terms of the fields of the module it is called on.\<close>

lemma clone_unfold:
  "clone reset m s =
     (let copy = fst (call_reset reset (clear_registries m) s);
          s1 = snd (call_reset reset (clear_registries m) s)
      in if od_size (parameters copy) \<noteq> od_size (parameters m)
         then (Inl (StructuralMismatch parameters_message), s1)
         else (case copy_tensors (parameters m) (parameters copy) s1 of
           (Inl e, s2) \<Rightarrow> (Inl e, s2)
         | (Inr _, s2) \<Rightarrow>
             if od_size (buffers copy) \<noteq> od_size (buffers m)
             then (Inl (StructuralMismatch buffers_message), s2)
             else (case copy_tensors (buffers m) (buffers copy) s2 of
               (Inl e, s3) \<Rightarrow> (Inl e, s3)
             | (Inr _, s3) \<Rightarrow>
                 if od_size (children copy) \<noteq> od_size (children m)
                 then (Inl (StructuralMismatch children_message), s3)
                 else clone_children reset (children m) copy s3)))"
proof (cases m)
  case (Module ty mem ps bs cs)
  show ?thesis unfolding Module clone.simps module.sel Let_def
    by (simp only: split_beta)
qed

lemma type_id_call_reset: "type_id (fst (call_reset reset obj s)) = type_id obj"
  by (simp add: call_reset_def case_prod_beta)

text \<open>The loop over the children assigns to children of the copy, and to nothing else of it.\<close>

lemma clone_children_fields:
  "clone_children reset cs copy s = (Inr c, s') \<Longrightarrow>
   type_id c = type_id copy \<and> members c = members copy \<and>
   parameters c = parameters copy \<and> buffers c = buffers copy"
proof (induction cs arbitrary: copy s)
  case Nil
  then show ?case by simp
next
  case (Cons a cs)
  obtain key child where a: "a = (key, child)" by (cases a)
  from Cons.prems show ?case
    unfolding a
    by (auto simp: set_children_def split: sum.splits prod.splits dest!: Cons.IH)
qed

lemma clone_type_id: "clone reset m s = (Inr c, s') \<Longrightarrow> type_id c = type_id m"
  by (auto simp: clone_unfold Let_def type_id_call_reset clear_registries_def
      split: if_splits prod.splits sum.splits dest!: clone_children_fields)





section \<open>The checks of \<open>clone\<close> and \<open>clone_\<close>\<close>

text \<open>
  C4. When the copy has, after \<open>reset()\<close>, a number of parameters other than the
  original's, \<open>clone()\<close> fails with the \<open>StructuralMismatch\<close> of the parameter check,
  whose message asks whether \<open>register_parameter()\<close> was called inside \<open>reset()\<close> and
  not the constructor, and the store it leaves is the one \<open>reset()\<close> left: no tensor data
  has been copied.
\<close>

theorem clone_parameter_count_mismatch:
  "od_size (parameters (fst (call_reset reset (clear_registries m) s))) \<noteq> od_size (parameters m) \<Longrightarrow>
   clone reset m s =
     (Inl (StructuralMismatch
        (''The cloned module does not have the same number of '' @
         ''parameters as the original module after calling reset(). '' @
         ''Are you sure you called register_parameter() inside reset() '' @
         ''and not the constructor?'')),
      snd (call_reset reset (clear_registries m) s))"
  by (simp add: clone_unfold Let_def parameters_message_def)

theorem clone_parameter_count_mismatch_witness:
  "od_size (parameters (fst (call_reset example_reset (clear_registries example_buggy) example_state)))
     \<noteq> od_size (parameters example_buggy) \<and>
   clone example_reset example_buggy example_state =
     (Inl (StructuralMismatch
        (''The cloned module does not have the same number of '' @
         ''parameters as the original module after calling reset(). '' @
         ''Are you sure you called register_parameter() inside reset() '' @
         ''and not the constructor?'')),
      snd (call_reset example_reset (clear_registries example_buggy) example_state))"
proof -
  have h: "od_size (parameters (fst (call_reset example_reset (clear_registries example_buggy) example_state)))
     \<noteq> od_size (parameters example_buggy)"
    by (simp add: example_defs Let_def)
  from h clone_parameter_count_mismatch [OF h] show ?thesis by (rule conjI)
qed

text \<open>
  C10. The object \<open>clone()\<close> returns has the dynamic type of the object it was called
  on, so the checked downcast to that type gives the object back, and \<open>clone_\<close> called
  on an object of that type passes its check.
\<close>

theorem clone_dynamic_type:
  "clone reset m s = (Inr c, s') \<Longrightarrow>
   type_id c = type_id m \<and> dynamic_pointer_cast (type_id m) c = Some c \<and>
   (type_id this = type_id m \<longrightarrow> clone_into reset this m s = (Inr c, s'))"
  by (auto simp: dynamic_pointer_cast_def dest: clone_type_id)

theorem clone_dynamic_type_witness:
  "clone example_reset example_linear example_state =
     (Inr (Module ''Linear'' [] [(''weight'', 4), (''bias'', 5)] [] []),
      snd (clone example_reset example_linear example_state)) \<and>
   type_id (Module ''Linear'' [] [(''weight'', 4), (''bias'', 5)] [] []) = type_id example_linear \<and>
   type_id (Module ''Linear'' [] [] [] []) = type_id example_linear \<and>
   clone_into example_reset (Module ''Linear'' [] [] [] []) example_linear example_state =
     (Inr (Module ''Linear'' [] [(''weight'', 4), (''bias'', 5)] [] []),
      snd (clone example_reset example_linear example_state))"
proof -
  have h: "clone example_reset example_linear example_state =
     (Inr (Module ''Linear'' [] [(''weight'', 4), (''bias'', 5)] [] []),
      snd (clone example_reset example_linear example_state))"
    by (rule prod_eqI) (simp_all add: example_defs Let_def)
  have t: "type_id (Module ''Linear'' [] [] [] []) = type_id example_linear"
    by (simp add: example_linear_def)
  from clone_dynamic_type [OF h, of "Module ''Linear'' [] [] [] []"] h t show ?thesis
    by blast
qed

text \<open>
  C5. In \<open>clone_(other)\<close>, when the clone of \<open>other\<close> does not downcast to the type of
  the object \<open>clone_\<close> is called on, the call fails with \<open>TypeMismatch\<close>, whose message
  says that the submodule is of a different type than the one it was to be cloned into.
  Nothing is assigned: the loop over the children that made the call ends with the same
  error and returns no module.
\<close>

theorem clone_into_type_mismatch:
  "clone reset other s = (Inr c, s') \<Longrightarrow>
   dynamic_pointer_cast (type_id this) c = None \<Longrightarrow>
   clone_into reset this other s =
     (Inl (TypeMismatch
        (''Attempted to clone submodule, but it is of a '' @
         ''different type than the submodule it was to be cloned into'')), s') \<and>
   (od_get (children copy) key = Inr this \<longrightarrow>
      clone_children reset ((key, other) # rest) copy s =
        (Inl (TypeMismatch type_message), s'))"
  by (simp add: type_message_def)

theorem clone_into_type_mismatch_witness:
  "clone example_reset example_container example_state =
     (Inr (Module ''Container'' [] [] []
        [(''inner'', Module ''Linear'' [] [(''weight'', 6), (''bias'', 7)] [] [])]),
      snd (clone example_reset example_container example_state)) \<and>
   dynamic_pointer_cast (type_id example_linear)
     (Module ''Container'' [] [] []
        [(''inner'', Module ''Linear'' [] [(''weight'', 6), (''bias'', 7)] [] [])]) = None \<and>
   od_get (children example_container) ''inner'' = Inr example_linear \<and>
   clone_into example_reset example_linear example_container example_state =
     (Inl (TypeMismatch
        (''Attempted to clone submodule, but it is of a '' @
         ''different type than the submodule it was to be cloned into'')),
      snd (clone example_reset example_container example_state)) \<and>
   clone_children example_reset [(''inner'', example_container)] example_container example_state =
     (Inl (TypeMismatch type_message), snd (clone example_reset example_container example_state))"
proof -
  have h: "clone example_reset example_container example_state =
     (Inr (Module ''Container'' [] [] []
        [(''inner'', Module ''Linear'' [] [(''weight'', 6), (''bias'', 7)] [] [])]),
      snd (clone example_reset example_container example_state))"
    by (rule prod_eqI) (simp_all add: example_defs Let_def)
  have d: "dynamic_pointer_cast (type_id example_linear)
     (Module ''Container'' [] [] []
        [(''inner'', Module ''Linear'' [] [(''weight'', 6), (''bias'', 7)] [] [])]) = None"
    by (simp add: example_defs)
  have g: "od_get (children example_container) ''inner'' = Inr example_linear"
    by (simp add: example_defs)
  from clone_into_type_mismatch [OF h d, of example_container "''inner''" "[]"] h d g
  show ?thesis by blast
qed


text \<open>
  C1, as the code has it. Each check is made right before the copying of its own
  category. A parameter count mismatch ends \<open>clone()\<close> in the store \<open>reset()\<close> left,
  with no data copied. A buffer count mismatch ends it after the parameter data has been
  copied and before any buffer data is. A child count mismatch ends it after the
  parameter and buffer data have been copied and before any child is cloned. In each case
  the result is the error of that check and no module.
\<close>

theorem clone_check_order:
  "(let copy = fst (call_reset reset (clear_registries m) s);
        s1 = snd (call_reset reset (clear_registries m) s);
        p = copy_tensors (parameters m) (parameters copy) s1;
        b = copy_tensors (buffers m) (buffers copy) (snd p)
    in (od_size (parameters copy) \<noteq> od_size (parameters m) \<longrightarrow>
          clone reset m s = (Inl (StructuralMismatch parameters_message), s1)) \<and>
       (od_size (parameters copy) = od_size (parameters m) \<and> fst p = Inr () \<and>
        od_size (buffers copy) \<noteq> od_size (buffers m) \<longrightarrow>
          clone reset m s = (Inl (StructuralMismatch buffers_message), snd p)) \<and>
       (od_size (parameters copy) = od_size (parameters m) \<and> fst p = Inr () \<and>
        od_size (buffers copy) = od_size (buffers m) \<and> fst b = Inr () \<and>
        od_size (children copy) \<noteq> od_size (children m) \<longrightarrow>
          clone reset m s = (Inl (StructuralMismatch children_message), snd b)))"
  unfolding Let_def
  by (intro conjI impI; (elim conjE)?; simp add: clone_unfold Let_def case_prod_beta)

theorem clone_check_order_witness:
  "(od_size (parameters (fst (call_reset example_reset (clear_registries example_buggy) example_state)))
      \<noteq> od_size (parameters example_buggy) \<and>
    clone example_reset example_buggy example_state =
      (Inl (StructuralMismatch parameters_message),
       snd (call_reset example_reset (clear_registries example_buggy) example_state))) \<and>
   (od_size (parameters (fst (call_reset example_reset (clear_registries example_stats) example_state)))
      = od_size (parameters example_stats) \<and>
    fst (copy_tensors (parameters example_stats)
      (parameters (fst (call_reset example_reset (clear_registries example_stats) example_state)))
      (snd (call_reset example_reset (clear_registries example_stats) example_state))) = Inr () \<and>
    od_size (buffers (fst (call_reset example_reset (clear_registries example_stats) example_state)))
      \<noteq> od_size (buffers example_stats) \<and>
    clone example_reset example_stats example_state =
      (Inl (StructuralMismatch buffers_message),
       snd (copy_tensors (parameters example_stats)
         (parameters (fst (call_reset example_reset (clear_registries example_stats) example_state)))
         (snd (call_reset example_reset (clear_registries example_stats) example_state))))) \<and>
   (od_size (children (fst (call_reset example_reset (clear_registries example_plain) example_state)))
      \<noteq> od_size (children example_plain) \<and>
    fst (clone example_reset example_plain example_state) =
      Inl (StructuralMismatch children_message))"
proof -
  note buggy = clone_check_order [of example_reset example_buggy example_state, unfolded Let_def]
  note stats = clone_check_order [of example_reset example_stats example_state, unfolded Let_def]
  note plain = clone_check_order [of example_reset example_plain example_state, unfolded Let_def]
  have b: "od_size (parameters (fst (call_reset example_reset (clear_registries example_buggy) example_state)))
      \<noteq> od_size (parameters example_buggy)"
    by (simp add: example_defs Let_def)
  have s1: "od_size (parameters (fst (call_reset example_reset (clear_registries example_stats) example_state)))
      = od_size (parameters example_stats)"
    by (simp add: example_defs Let_def)
  have s2: "fst (copy_tensors (parameters example_stats)
      (parameters (fst (call_reset example_reset (clear_registries example_stats) example_state)))
      (snd (call_reset example_reset (clear_registries example_stats) example_state))) = Inr ()"
    by (simp add: example_defs Let_def)
  have s3: "od_size (buffers (fst (call_reset example_reset (clear_registries example_stats) example_state)))
      \<noteq> od_size (buffers example_stats)"
    by (simp add: example_defs Let_def)
  have p1: "od_size (parameters (fst (call_reset example_reset (clear_registries example_plain) example_state)))
      = od_size (parameters example_plain)"
    by (simp add: example_defs Let_def)
  have p2: "fst (copy_tensors (parameters example_plain)
      (parameters (fst (call_reset example_reset (clear_registries example_plain) example_state)))
      (snd (call_reset example_reset (clear_registries example_plain) example_state))) = Inr ()"
    by (simp add: example_defs Let_def)
  have p3: "od_size (buffers (fst (call_reset example_reset (clear_registries example_plain) example_state)))
      = od_size (buffers example_plain)"
    by (simp add: example_defs Let_def)
  have p4: "fst (copy_tensors (buffers example_plain)
      (buffers (fst (call_reset example_reset (clear_registries example_plain) example_state)))
      (snd (copy_tensors (parameters example_plain)
        (parameters (fst (call_reset example_reset (clear_registries example_plain) example_state)))
        (snd (call_reset example_reset (clear_registries example_plain) example_state))))) = Inr ()"
    by (simp add: example_defs Let_def)
  have p5: "od_size (children (fst (call_reset example_reset (clear_registries example_plain) example_state)))
      \<noteq> od_size (children example_plain)"
    by (simp add: example_defs Let_def)
  from buggy b have r1: "clone example_reset example_buggy example_state =
      (Inl (StructuralMismatch parameters_message),
       snd (call_reset example_reset (clear_registries example_buggy) example_state))"
    by blast
  from stats s1 s2 s3 have r2: "clone example_reset example_stats example_state =
      (Inl (StructuralMismatch buffers_message),
       snd (copy_tensors (parameters example_stats)
         (parameters (fst (call_reset example_reset (clear_registries example_stats) example_state)))
         (snd (call_reset example_reset (clear_registries example_stats) example_state))))"
    by blast
  from plain p1 p2 p3 p4 p5 have "clone example_reset example_plain example_state =
      (Inl (StructuralMismatch children_message),
       snd (copy_tensors (buffers example_plain)
      (buffers (fst (call_reset example_reset (clear_registries example_plain) example_state)))
      (snd (copy_tensors (parameters example_plain)
        (parameters (fst (call_reset example_reset (clear_registries example_plain) example_state)))
        (snd (call_reset example_reset (clear_registries example_plain) example_state))))))"
    by blast
  then have r3: "fst (clone example_reset example_plain example_state) =
      Inl (StructuralMismatch children_message)"
    by simp
  from b r1 s1 s2 s3 r2 p5 r3 show ?thesis by blast
qed

text \<open>
  C1 as the spec states it fails: cloning the \<open>Stats\<close> object fails at the buffer check,
  and the parameter tensor of the copy (handle 4), which held what \<open>reset()\<close> put there,
  holds the data of the source's parameter by then.
\<close>

theorem clone_copies_before_buffer_check:
  "fst (clone example_reset example_stats example_state) = Inl (StructuralMismatch buffers_message) \<and>
   storage (snd (call_reset example_reset (clear_registries example_stats) example_state)) 4 = [0] \<and>
   storage (snd (clone example_reset example_stats example_state)) 4 = [4] \<and>
   storage example_state 2 = [4]"
  by (simp add: example_defs Let_def)

text \<open>
  C9. The checks compare counts, not names. The \<open>Wrapper\<close> object has the child
  \<open>inner\<close>; its \<open>reset()\<close> registers one child, \<open>layer\<close>. All three counts agree,
  and \<open>clone()\<close> does not end in a \<open>StructuralMismatch\<close> (it ends in the failed
  lookup of \<open>inner\<close> in the copy).
\<close>

theorem clone_compares_counts_only:
  "od_keys (children example_wrapper) = [''inner''] \<and>
   od_keys (children (fst (call_reset example_reset (clear_registries example_wrapper) example_state))) = [''layer''] \<and>
   od_size (parameters (fst (call_reset example_reset (clear_registries example_wrapper) example_state)))
     = od_size (parameters example_wrapper) \<and>
   od_size (buffers (fst (call_reset example_reset (clear_registries example_wrapper) example_state)))
     = od_size (buffers example_wrapper) \<and>
   od_size (children (fst (call_reset example_reset (clear_registries example_wrapper) example_state)))
     = od_size (children example_wrapper) \<and>
   fst (clone example_reset example_wrapper example_state) = Inl (NoSuchKey ''inner'') \<and>
   (\<forall>msg. fst (clone example_reset example_wrapper example_state) \<noteq> Inl (StructuralMismatch msg))"
  by (simp add: example_defs od_keys_def Let_def)

section \<open>What the clone is made of\<close>




section \<open>Storage independence\<close>

lemma tensors_of_sel:
  "tensors_of m = snd ` set (parameters m) \<union> snd ` set (buffers m) \<union> (\<Union>x \<in> set (children m). tensors_of (snd x))"
  by (cases m) simp

lemma fresh_example: "fresh_storage example_reset"
  unfolding fresh_storage_def
  by (auto simp: example_defs extends_def Let_def)


lemma extends_refl: "extends s s"
  by (simp add: extends_def)

lemma extends_trans: "extends s s1 \<Longrightarrow> extends s1 s2 \<Longrightarrow> extends s s2"
  by (auto simp: extends_def)

lemma od_get_in_set: "od_get d key = Inr v \<Longrightarrow> (key, v) \<in> set d"
  by (auto simp: od_get_def split: option.splits dest: map_of_SomeD)

lemma copy_tensors_frame:
  "copy_tensors src dst s = (r, s') \<Longrightarrow>
   allocated s' = allocated s \<and> (\<forall>a. a \<notin> snd ` set dst \<longrightarrow> storage s' a = storage s a)"
proof (induction src arbitrary: s)
  case Nil
  then show ?case by simp
next
  case (Cons e src)
  obtain key t where e: "e = (key, t)" by (cases e)
  show ?case
  proof (cases "od_get dst key")
    case (Inl err)
    with Cons.prems e show ?thesis by simp
  next
    case (Inr d)
    with Cons.prems e have r: "copy_tensors src dst (copy_data d t s) = (r, s')" by simp
    from od_get_in_set [OF Inr] have "d \<in> snd ` set dst" by force
    with Cons.IH [OF r] show ?thesis by (auto simp: copy_data_def)
  qed
qed

lemma call_reset_fresh:
  assumes "fresh_storage reset"
  shows "extends s (snd (call_reset reset (clear_registries m) s))"
    and "tensors_of (fst (call_reset reset (clear_registries m) s))
           \<subseteq> {allocated s ..< allocated (snd (call_reset reset (clear_registries m) s))}"
    and "distinct (map snd (parameters (fst (call_reset reset (clear_registries m) s))) @
                   map snd (buffers (fst (call_reset reset (clear_registries m) s))))"
proof -
  obtain c s' where r: "reset (Module (type_id m) (members m) [] [] []) s = (c, s')"
    by (cases "reset (Module (type_id m) (members m) [] [] []) s")
  from assms have "let (c, s') = reset (Module (type_id m) (members m) [] [] []) s
        in extends s s' \<and> tensors_of c \<subseteq> {allocated s ..< allocated s'} \<and>
           distinct (map snd (parameters c) @ map snd (buffers c))"
    unfolding fresh_storage_def by blast
  with r have f: "extends s s'" "tensors_of c \<subseteq> {allocated s ..< allocated s'}"
    "distinct (map snd (parameters c) @ map snd (buffers c))"
    by simp_all
  from r have cr: "call_reset reset (clear_registries m) s =
      (Module (type_id m) (members c) (parameters c) (buffers c) (children c), s')"
    by (simp add: call_reset_def clear_registries_def)
  have "tensors_of (Module (type_id m) (members c) (parameters c) (buffers c) (children c)) = tensors_of c"
    by (simp add: tensors_of_sel [of c])
  with f cr show "extends s (snd (call_reset reset (clear_registries m) s))"
    and "tensors_of (fst (call_reset reset (clear_registries m) s))
           \<subseteq> {allocated s ..< allocated (snd (call_reset reset (clear_registries m) s))}"
    and "distinct (map snd (parameters (fst (call_reset reset (clear_registries m) s))) @
                   map snd (buffers (fst (call_reset reset (clear_registries m) s))))"
    by simp_all
qed

lemma clone_children_frame:
  assumes "\<And>x s r s'. x \<in> set cs \<Longrightarrow> clone reset (snd x) s = (r, s') \<Longrightarrow> extends s s'"
  shows "clone_children reset cs copy s = (r, s') \<Longrightarrow> extends s s'"
  using assms
proof (induction cs arbitrary: copy s)
  case Nil
  then show ?case by (simp add: extends_refl)
next
  case (Cons e cs)
  obtain key child where e: "e = (key, child)" by (cases e)
  show ?case
  proof (cases "od_get (children copy) key")
    case (Inl err)
    with Cons.prems(1) e show ?thesis by (simp add: extends_refl)
  next
    case (Inr this)
    obtain rc sc where c: "clone reset child s = (rc, sc)" by (cases "clone reset child s")
    from Cons.prems(2) [of e s rc sc] c e have x: "extends s sc" by simp
    show ?thesis
    proof (cases rc)
      case (Inl err)
      with Cons.prems(1) e Inr c x show ?thesis by simp
    next
      case r2: (Inr c')
      show ?thesis
      proof (cases "dynamic_pointer_cast (type_id this) c'")
        case None
        with Cons.prems(1) e Inr c r2 x show ?thesis by simp
      next
        case (Some c'')
        with Cons.prems(1) e Inr c r2 have
          "clone_children reset cs (set_children copy (od_assign (children copy) key c'')) sc = (r, s')"
          by simp
        moreover from Cons.prems(2)
        have "\<And>x s r s'. x \<in> set cs \<Longrightarrow> clone reset (snd x) s = (r, s') \<Longrightarrow> extends s s'"
          by (meson list.set_intros(2))
        ultimately have "extends sc s'" by (rule Cons.IH)
        with x show ?thesis by (rule extends_trans)
      qed
    qed
  qed
qed

lemma clone_frame:
  assumes f: "fresh_storage reset"
  shows "clone reset m s = (r, s') \<Longrightarrow> extends s s'"
proof (induction m arbitrary: s r s')
  case (Module ty mem ps bs cs)
  let ?m = "Module ty mem ps bs cs"
  let ?copy = "fst (call_reset reset (clear_registries ?m) s)"
  let ?s1 = "snd (call_reset reset (clear_registries ?m) s)"
  obtain rp s2 where p: "copy_tensors ps (parameters ?copy) ?s1 = (rp, s2)"
    by (cases "copy_tensors ps (parameters ?copy) ?s1")
  obtain rb s3 where b: "copy_tensors bs (buffers ?copy) s2 = (rb, s3)"
    by (cases "copy_tensors bs (buffers ?copy) s2")
  obtain rc s4 where c: "clone_children reset cs ?copy s3 = (rc, s4)"
    by (cases "clone_children reset cs ?copy s3")
  have e1: "extends s ?s1" by (rule call_reset_fresh(1) [OF f])
  have sub: "tensors_of ?copy \<subseteq> {allocated s ..< allocated ?s1}"
    by (rule call_reset_fresh(2) [OF f])
  have "snd ` set (parameters ?copy) \<subseteq> tensors_of ?copy"
    by (subst tensors_of_sel [of ?copy]) blast
  from this sub have "snd ` set (parameters ?copy) \<subseteq> {allocated s ..< allocated ?s1}" by (rule order_trans)
  then have fp: "\<forall>a < allocated s. a \<notin> snd ` set (parameters ?copy)"
    by (meson atLeastLessThan_iff not_le subsetD)
  have "snd ` set (buffers ?copy) \<subseteq> tensors_of ?copy"
    by (subst tensors_of_sel [of ?copy]) blast
  from this sub have "snd ` set (buffers ?copy) \<subseteq> {allocated s ..< allocated ?s1}" by (rule order_trans)
  then have fb: "\<forall>a < allocated s. a \<notin> snd ` set (buffers ?copy)"
    by (meson atLeastLessThan_iff not_le subsetD)
  from copy_tensors_frame [OF p] fp e1 have e2: "extends s s2" "allocated s2 = allocated ?s1"
    by (auto simp: extends_def)
  from copy_tensors_frame [OF b] fb e2 have e3: "extends s s3" "allocated s3 = allocated ?s1"
    by (auto simp: extends_def)
  have "extends s3 s4"
  proof (rule clone_children_frame [OF _ c])
    fix x s r s'
    assume "x \<in> set cs" "clone reset (snd x) s = (r, s')"
    then show "extends s s'"
      by (intro Module.IH [of x "snd x"]) (auto simp: snds.simps)
  qed
  with e3 have e4: "extends s s4" by (blast intro: extends_trans)
  from Module.prems p b c have "s' = ?s1 \<or> s' = s2 \<or> s' = s3 \<or> s' = s4"
    by (auto simp: clone_unfold Let_def split: if_splits sum.splits)
  with e1 e2 e3 e4 show ?case by blast
qed

lemma od_get_map_of: "od_get d key = Inr v \<longleftrightarrow> map_of d key = Some v"
  by (simp add: od_get_def split: option.splits)

lemma copy_tensors_writes:
  "copy_tensors src dst s = (r, s') \<Longrightarrow>
   \<forall>a. (\<forall>k \<in> fst ` set src. map_of dst k \<noteq> Some a) \<longrightarrow> storage s' a = storage s a"
proof (induction src arbitrary: s)
  case Nil
  then show ?case by simp
next
  case (Cons e src)
  obtain key t where e: "e = (key, t)" by (cases e)
  show ?case
  proof (cases "od_get dst key")
    case (Inl err)
    with Cons.prems e show ?thesis by simp
  next
    case (Inr d)
    with Cons.prems e have r: "copy_tensors src dst (copy_data d t s) = (r, s')" by simp
    from Inr have "map_of dst key = Some d" by (simp add: od_get_map_of)
    with Cons.IH [OF r] e show ?thesis by (auto simp: copy_data_def)
  qed
qed

lemma distinct_values_key:
  assumes "distinct (map snd dst)" "map_of dst k1 = Some d" "map_of dst k2 = Some d"
  shows "k1 = k2"
proof -
  from assms(2,3) have a: "(k1, d) \<in> set dst" "(k2, d) \<in> set dst" by (auto dest: map_of_SomeD)
  from assms(1) have i: "inj_on snd (set dst)" by (simp add: distinct_map)
  have "snd (k1, d) = snd (k2, d)" by simp
  from inj_onD [OF i this a] show ?thesis by simp
qed

lemma copy_tensors_data:
  assumes "distinct (map fst src)" "distinct (map snd dst)"
    and "snd ` set src \<inter> snd ` set dst = {}"
  shows "copy_tensors src dst s = (Inr (), s') \<Longrightarrow>
    \<forall>(k, t) \<in> set src. \<exists>d. map_of dst k = Some d \<and> storage s' d = storage s t"
  using assms(1,3)
proof (induction src arbitrary: s)
  case Nil
  then show ?case by simp
next
  case (Cons e src)
  obtain key t where e: "e = (key, t)" by (cases e)
  from Cons.prems(1) e obtain d where g: "od_get dst key = Inr d"
    by (cases "od_get dst key") auto
  with Cons.prems(1) e have r: "copy_tensors src dst (copy_data d t s) = (Inr (), s')" by simp
  from g have m: "map_of dst key = Some d" by (simp add: od_get_map_of)
  then have din: "d \<in> snd ` set dst" by (force dest: map_of_SomeD)
  from Cons.prems(2) have ds: "distinct (map fst src)" by simp
  from Cons.prems(3) have dj: "snd ` set src \<inter> snd ` set dst = {}" by auto
  from Cons.IH [OF r ds dj]
  have ih: "\<forall>(k, t') \<in> set src. \<exists>d'. map_of dst k = Some d' \<and> storage s' d' = storage (copy_data d t s) t'" .
  have rest: "\<forall>(k, t') \<in> set src. \<exists>d'. map_of dst k = Some d' \<and> storage s' d' = storage s t'"
  proof (intro ballI)
    fix x assume x: "x \<in> set src"
    obtain k t' where kt: "x = (k, t')" by (cases x)
    from x kt have "t' \<in> snd ` set src" by force
    with dj din have "t' \<noteq> d" by blast
    then have "storage (copy_data d t s) t' = storage s t'" by (simp add: copy_data_def)
    with ih x kt show "case x of (k, t') \<Rightarrow> \<exists>d'. map_of dst k = Some d' \<and> storage s' d' = storage s t'"
      by fastforce
  qed
  have "\<forall>k \<in> fst ` set src. map_of dst k \<noteq> Some d"
  proof
    fix k assume k: "k \<in> fst ` set src"
    show "map_of dst k \<noteq> Some d"
    proof
      assume "map_of dst k = Some d"
      with assms(2) m have "k = key" by (blast intro: distinct_values_key)
      with k Cons.prems(2) e show False by simp
    qed
  qed
  with copy_tensors_writes [OF r] have "storage s' d = storage (copy_data d t s) d" by blast
  then have "storage s' d = storage s t" by (simp add: copy_data_def)
  with m rest e show ?case by simp
qed

lemma clone_children_frame_fresh:
  assumes "fresh_storage reset" "clone_children reset cs copy s = (r, s')"
  shows "extends s s'"
  by (rule clone_children_frame [OF _ assms(2)]) (rule clone_frame [OF assms(1)])

lemma clone_success:
  assumes "clone reset m s = (Inr c, s')"
  obtains s2 s3 where
    "od_size (parameters (fst (call_reset reset (clear_registries m) s))) = od_size (parameters m)"
    "copy_tensors (parameters m) (parameters (fst (call_reset reset (clear_registries m) s)))
       (snd (call_reset reset (clear_registries m) s)) = (Inr (), s2)"
    "od_size (buffers (fst (call_reset reset (clear_registries m) s))) = od_size (buffers m)"
    "copy_tensors (buffers m) (buffers (fst (call_reset reset (clear_registries m) s))) s2 = (Inr (), s3)"
    "od_size (children (fst (call_reset reset (clear_registries m) s))) = od_size (children m)"
    "clone_children reset (children m) (fst (call_reset reset (clear_registries m) s)) s3 = (Inr c, s')"
  using assms
  by (auto simp: clone_unfold Let_def split: if_splits prod.splits sum.splits)


text \<open>
  C3. For every parameter and every buffer of the source, the module \<open>clone()\<close>
  returns has a tensor under the same name, the one \<open>reset()\<close> registered under that
  name; in the store \<open>clone()\<close> leaves it holds
  the data the source's tensor held when \<open>clone()\<close> was called; it is none of the
  source's tensors, and writing to it leaves the source's tensor with its data. The
  names of the source's parameters and of its buffers are unique, and the \<open>reset()\<close>
  functions are taken to honour their contract.
\<close>

theorem clone_copies_data:
  assumes f: "fresh_storage reset" and old: "tensors_of m \<subseteq> {..<allocated s}"
    and dp: "distinct (od_keys (parameters m))" and db: "distinct (od_keys (buffers m))"
    and cl: "clone reset m s = (Inr c, s')"
  shows "(\<forall>(name, t) \<in> set (parameters m). \<exists>t'. map_of (parameters c) name = Some t' \<and>
            map_of (parameters (fst (call_reset reset (clear_registries m) s))) name = Some t' \<and>
            storage s' t' = storage s t \<and> t' \<notin> tensors_of m \<and>
            (\<forall>d. storage (write_data t' d s') t = storage s t)) \<and>
         (\<forall>(name, t) \<in> set (buffers m). \<exists>t'. map_of (buffers c) name = Some t' \<and>
            map_of (buffers (fst (call_reset reset (clear_registries m) s))) name = Some t' \<and>
            storage s' t' = storage s t \<and> t' \<notin> tensors_of m \<and>
            (\<forall>d. storage (write_data t' d s') t = storage s t))"
proof -
  let ?copy = "fst (call_reset reset (clear_registries m) s)"
  let ?s1 = "snd (call_reset reset (clear_registries m) s)"
  from cl obtain s2 s3 where
    p: "copy_tensors (parameters m) (parameters ?copy) ?s1 = (Inr (), s2)" and
    b: "copy_tensors (buffers m) (buffers ?copy) s2 = (Inr (), s3)" and
    ch: "clone_children reset (children m) ?copy s3 = (Inr c, s')"
    by (rule clone_success)
  have e1: "extends s ?s1" by (rule call_reset_fresh(1) [OF f])
  have sub: "tensors_of ?copy \<subseteq> {allocated s ..< allocated ?s1}"
    by (rule call_reset_fresh(2) [OF f])
  have dist: "distinct (map snd (parameters ?copy) @ map snd (buffers ?copy))"
    by (rule call_reset_fresh(3) [OF f])
  have "snd ` set (parameters ?copy) \<subseteq> tensors_of ?copy"
    by (subst tensors_of_sel [of ?copy]) blast
  from this sub have P: "snd ` set (parameters ?copy) \<subseteq> {allocated s ..< allocated ?s1}"
    by (rule order_trans)
  have "snd ` set (buffers ?copy) \<subseteq> tensors_of ?copy"
    by (subst tensors_of_sel [of ?copy]) blast
  from this sub have B: "snd ` set (buffers ?copy) \<subseteq> {allocated s ..< allocated ?s1}"
    by (rule order_trans)
  have "snd ` set (parameters m) \<subseteq> tensors_of m"
    by (subst tensors_of_sel [of m]) blast
  with old have sp: "snd ` set (parameters m) \<subseteq> {..<allocated s}" by blast
  have "snd ` set (buffers m) \<subseteq> tensors_of m"
    by (subst tensors_of_sel [of m]) blast
  with old have sb: "snd ` set (buffers m) \<subseteq> {..<allocated s}" by blast
  from sp P have djp: "snd ` set (parameters m) \<inter> snd ` set (parameters ?copy) = {}"
    by fastforce
  from sb B have djb: "snd ` set (buffers m) \<inter> snd ` set (buffers ?copy) = {}"
    by fastforce
  from copy_tensors_frame [OF p] have a2: "allocated s2 = allocated ?s1"
    and w2: "\<forall>a. a \<notin> snd ` set (parameters ?copy) \<longrightarrow> storage s2 a = storage ?s1 a"
    by simp_all
  from copy_tensors_frame [OF b] have a3: "allocated s3 = allocated s2"
    and w3: "\<forall>a. a \<notin> snd ` set (buffers ?copy) \<longrightarrow> storage s3 a = storage s2 a"
    by simp_all
  have e4: "extends s3 s'" by (rule clone_children_frame_fresh [OF f ch])
  have keep: "\<forall>a < allocated ?s1. storage s' a = storage s3 a"
    using e4 a2 a3 by (simp add: extends_def)
  have e: "extends s s'" by (rule clone_frame [OF f cl])
  have src1: "\<forall>a < allocated s. storage ?s1 a = storage s a"
    using e1 by (simp add: extends_def)
  have src2: "\<forall>a < allocated s. storage s2 a = storage s a"
  proof (intro allI impI)
    fix a assume a: "a < allocated s"
    with P have "a \<notin> snd ` set (parameters ?copy)" by fastforce
    with w2 src1 a show "storage s2 a = storage s a" by simp
  qed
  have src: "\<forall>a < allocated s. storage s' a = storage s a"
    using e by (simp add: extends_def)
  from clone_children_fields [OF ch] have pc: "parameters c = parameters ?copy"
    and bc: "buffers c = buffers ?copy" by simp_all
  from dist have dP: "distinct (map snd (parameters ?copy))"
    and dB: "distinct (map snd (buffers ?copy))"
    and dPB: "snd ` set (parameters ?copy) \<inter> snd ` set (buffers ?copy) = {}"
    by (simp_all add: image_image)
  have fresh_new: "\<And>t'. allocated s \<le> t' \<Longrightarrow> t' \<notin> tensors_of m"
    using old by fastforce
  have no_alias: "\<And>t t' d. t < allocated s \<Longrightarrow> allocated s \<le> t' \<Longrightarrow>
      storage (write_data t' d s') t = storage s t"
    using src by (simp add: write_data_def)
  from copy_tensors_data [OF _ dP djp p] dp
  have cp: "\<forall>(k, t) \<in> set (parameters m). \<exists>d. map_of (parameters ?copy) k = Some d \<and>
      storage s2 d = storage ?s1 t"
    by (simp add: od_keys_def)
  from copy_tensors_data [OF _ dB djb b] db
  have cb: "\<forall>(k, t) \<in> set (buffers m). \<exists>d. map_of (buffers ?copy) k = Some d \<and>
      storage s3 d = storage s2 t"
    by (simp add: od_keys_def)
  have params: "\<forall>(name, t) \<in> set (parameters m). \<exists>t'. map_of (parameters c) name = Some t' \<and>
            map_of (parameters ?copy) name = Some t' \<and>
            storage s' t' = storage s t \<and> t' \<notin> tensors_of m \<and>
            (\<forall>d. storage (write_data t' d s') t = storage s t)"
  proof (intro ballI)
    fix x assume x: "x \<in> set (parameters m)"
    obtain name t where nt: "x = (name, t)" by (cases x)
    from x nt sp have t: "t < allocated s" by fastforce
    from cp x nt obtain d where d: "map_of (parameters ?copy) name = Some d"
      "storage s2 d = storage ?s1 t" by fastforce
    from d(1) have din: "d \<in> snd ` set (parameters ?copy)" by (force dest: map_of_SomeD)
    with P have dr: "allocated s \<le> d" "d < allocated ?s1" by fastforce+
    from din dPB have "d \<notin> snd ` set (buffers ?copy)" by blast
    with w3 have "storage s3 d = storage s2 d" by simp
    with keep dr d(2) src1 t have "storage s' d = storage s t" by simp
    with d(1) pc fresh_new [OF dr(1)] no_alias [OF t dr(1)] nt
    show "case x of (name, t) \<Rightarrow> \<exists>t'. map_of (parameters c) name = Some t' \<and>
            map_of (parameters ?copy) name = Some t' \<and>
            storage s' t' = storage s t \<and> t' \<notin> tensors_of m \<and>
            (\<forall>d. storage (write_data t' d s') t = storage s t)"
      by simp
  qed
  have bufs: "\<forall>(name, t) \<in> set (buffers m). \<exists>t'. map_of (buffers c) name = Some t' \<and>
            map_of (buffers ?copy) name = Some t' \<and>
            storage s' t' = storage s t \<and> t' \<notin> tensors_of m \<and>
            (\<forall>d. storage (write_data t' d s') t = storage s t)"
  proof (intro ballI)
    fix x assume x: "x \<in> set (buffers m)"
    obtain name t where nt: "x = (name, t)" by (cases x)
    from x nt sb have t: "t < allocated s" by fastforce
    from cb x nt obtain d where d: "map_of (buffers ?copy) name = Some d"
      "storage s3 d = storage s2 t" by fastforce
    from d(1) have din: "d \<in> snd ` set (buffers ?copy)" by (force dest: map_of_SomeD)
    with B have dr: "allocated s \<le> d" "d < allocated ?s1" by fastforce+
    with keep d(2) src2 t have "storage s' d = storage s t" by simp
    with d(1) bc fresh_new [OF dr(1)] no_alias [OF t dr(1)] nt
    show "case x of (name, t) \<Rightarrow> \<exists>t'. map_of (buffers c) name = Some t' \<and>
            map_of (buffers ?copy) name = Some t' \<and>
            storage s' t' = storage s t \<and> t' \<notin> tensors_of m \<and>
            (\<forall>d. storage (write_data t' d s') t = storage s t)"
      by simp
  qed
  from params bufs show ?thesis by (rule conjI)
qed


theorem clone_copies_data_witness:
  "fresh_storage example_reset \<and>
   tensors_of example_batchnorm \<subseteq> {..<allocated example_state} \<and>
   distinct (od_keys (parameters example_batchnorm)) \<and>
   distinct (od_keys (buffers example_batchnorm)) \<and>
   clone example_reset example_batchnorm example_state =
     (Inr (Module ''BatchNorm'' [] [(''weight'', 4)] [(''running_mean'', 5)] []),
      snd (clone example_reset example_batchnorm example_state)) \<and>
   (''weight'', 2) \<in> set (parameters example_batchnorm) \<and>
   (''running_mean'', 3) \<in> set (buffers example_batchnorm) \<and>
   storage (snd (clone example_reset example_batchnorm example_state)) 4 = [4] \<and>
   storage (snd (clone example_reset example_batchnorm example_state)) 5 = [5] \<and>
   storage (write_data 4 [9] (snd (clone example_reset example_batchnorm example_state))) 2 = [4] \<and>
   storage (write_data 5 [9] (snd (clone example_reset example_batchnorm example_state))) 3 = [5]"
proof -
  let ?c = "Module ''BatchNorm'' [] [(''weight'', 4)] [(''running_mean'', 5)] []"
  let ?s' = "snd (clone example_reset example_batchnorm example_state)"
  have o: "tensors_of example_batchnorm \<subseteq> {..<allocated example_state}"
    by (simp add: example_defs)
  have dp: "distinct (od_keys (parameters example_batchnorm))"
    by (simp add: example_defs od_keys_def)
  have db: "distinct (od_keys (buffers example_batchnorm))"
    by (simp add: example_defs od_keys_def)
  have c: "clone example_reset example_batchnorm example_state = (Inr ?c, ?s')"
    by (rule prod_eqI) (simp_all add: example_defs Let_def)
  have ip: "(''weight'', 2) \<in> set (parameters example_batchnorm)"
    by (simp add: example_defs)
  have ib: "(''running_mean'', 3) \<in> set (buffers example_batchnorm)"
    by (simp add: example_defs)
  note t = clone_copies_data [OF fresh_example o dp db c]
  from t have "\<forall>(name, t) \<in> set (parameters example_batchnorm).
      \<exists>t'. map_of (parameters ?c) name = Some t' \<and>
        map_of (parameters (fst (call_reset example_reset (clear_registries example_batchnorm) example_state)))
          name = Some t' \<and>
        storage ?s' t' = storage example_state t \<and> t' \<notin> tensors_of example_batchnorm \<and>
        (\<forall>d. storage (write_data t' d ?s') t = storage example_state t)"
    by (rule conjunct1)
  from bspec [OF this ip] have p: "storage ?s' 4 = storage example_state 2 \<and>
      storage (write_data 4 [9] ?s') 2 = storage example_state 2"
    by auto
  from t have "\<forall>(name, t) \<in> set (buffers example_batchnorm).
      \<exists>t'. map_of (buffers ?c) name = Some t' \<and>
        map_of (buffers (fst (call_reset example_reset (clear_registries example_batchnorm) example_state)))
          name = Some t' \<and>
        storage ?s' t' = storage example_state t \<and> t' \<notin> tensors_of example_batchnorm \<and>
        (\<forall>d. storage (write_data t' d ?s') t = storage example_state t)"
    by (rule conjunct2)
  from bspec [OF this ib] have b: "storage ?s' 5 = storage example_state 3 \<and>
      storage (write_data 5 [9] ?s') 3 = storage example_state 3"
    by auto
  have v: "storage example_state 2 = [4]" "storage example_state 3 = [5]"
    by (simp_all add: example_state_def)
  from p b v fresh_example o dp db c ip ib show ?thesis by simp
qed


section \<open>Shape preservation\<close>









lemma correct_reset_sel:
  "correct_reset reset m =
     ((\<forall>s. let copy = fst (call_reset reset (clear_registries m) s)
         in same_names copy m \<and>
            distinct (od_keys (parameters copy)) \<and> distinct (od_keys (buffers copy)) \<and>
            distinct (od_keys (children copy)) \<and>
            (\<forall>x \<in> set (children m). \<forall>y \<in> set (children copy).
               fst x = fst y \<longrightarrow> type_id (snd y) = type_id (snd x))) \<and>
      (\<forall>x \<in> set (children m). correct_reset reset (snd x)))"
  by (cases m) simp








section \<open>The source after \<open>clone\<close>\<close>

lemmas heap_defs = make_shared_def heap_clear_registries_def heap_call_reset_def
  heap_copy_tensors_def add_parameter_def add_child_def fresh_parameter_def
  heap_linear_reset_def heap_example_reset_def aliasing_reset_def example_linear_object_def
  empty_object_def example_heap_def holder_heap_def swap_heap_def
  new_tensor_def od_size_def od_get_def copy_data_def example_state_def


lemma fresh_heap_example: "fresh_objects heap_example_reset"
  unfolding fresh_objects_def
  by (auto simp: heap_defs extends_def Let_def)

lemma heap_copy_tensors_frame:
  assumes "heap_copy_tensors src dst h = (r, h')"
  shows "objects h' = objects h" and "next_object h' = next_object h"
    and "allocated (store h') = allocated (store h)"
    and "\<forall>a. a \<notin> snd ` set dst \<longrightarrow> storage (store h') a = storage (store h) a"
proof -
  obtain r0 s' where c: "copy_tensors src dst (store h) = (r0, s')"
    by (cases "copy_tensors src dst (store h)")
  with assms have h': "h' = h\<lparr>store := s'\<rparr>" by (simp add: heap_copy_tensors_def)
  from h' show "objects h' = objects h" and "next_object h' = next_object h" by simp_all
  from copy_tensors_frame [OF c] h' show "allocated (store h') = allocated (store h)"
    and "\<forall>a. a \<notin> snd ` set dst \<longrightarrow> storage (store h') a = storage (store h) a"
    by simp_all
qed

lemma heap_extends_refl: "heap_extends h h"
  by (simp add: heap_extends_def extends_refl)

lemma heap_clone_into_frame:
  assumes ih: "\<And>this h r h'. heap_clone n reset this h = Some (r, h') \<Longrightarrow> heap_extends h h'"
    and r: "heap_clone_into n reset this other h = Some (r, h')"
  shows "extends (store h) (store h') \<and> next_object h \<le> next_object h' \<and>
         (\<forall>x < next_object h. x \<noteq> this \<longrightarrow> objects h' x = objects h x)"
proof (cases "heap_clone n reset other h")
  case None
  with r show ?thesis by simp
next
  case (Some p)
  obtain rc h1 where p: "p = (rc, h1)" by (cases p)
  from ih [of other h rc h1] Some p have e: "heap_extends h h1" by simp
  from r Some p have "h' = h1 \<or> (\<exists>c. h' = h1\<lparr>objects := (objects h1)(this := objects h1 c)\<rparr>)"
    by (auto split: sum.splits if_splits)
  with e show ?thesis by (auto simp: heap_extends_def)
qed

lemma heap_clone_children_frame:
  assumes ih: "\<And>this h r h'. heap_clone n reset this h = Some (r, h') \<Longrightarrow> heap_extends h h'"
  shows "heap_clone_children n reset cs copy h = Some (r, h') \<Longrightarrow>
    copy < next_object h \<Longrightarrow>
    \<forall>x \<in> set (obj_children (objects h copy)). copy < snd x \<Longrightarrow>
    extends (store h) (store h') \<and> next_object h \<le> next_object h' \<and>
    (\<forall>x \<le> copy. objects h' x = objects h x)"
proof (induction cs arbitrary: h)
  case Nil
  then show ?case by (simp add: extends_refl)
next
  case (Cons e cs)
  obtain key child where e: "e = (key, child)" by (cases e)
  show ?case
  proof (cases "od_get (obj_children (objects h copy)) key")
    case (Inl err)
    with Cons.prems(1) e show ?thesis by (auto simp: extends_refl)
  next
    case (Inr this)
    from od_get_in_set [OF Inr] Cons.prems(3) have gt: "copy < this" by fastforce
    show ?thesis
    proof (cases "heap_clone_into n reset this child h")
      case None
      with Cons.prems(1) e Inr show ?thesis by simp
    next
      case (Some p)
      obtain ri h1 where p: "p = (ri, h1)" by (cases p)
      from Some p have s: "heap_clone_into n reset this child h = Some (ri, h1)" by simp
      from heap_clone_into_frame [OF ih s]
      have f: "extends (store h) (store h1)" "next_object h \<le> next_object h1"
        "\<forall>x < next_object h. x \<noteq> this \<longrightarrow> objects h1 x = objects h x"
        by simp_all
      from f(3) gt Cons.prems(2) have low: "\<forall>x \<le> copy. objects h1 x = objects h x" by simp
      show ?thesis
      proof (cases ri)
        case (Inl err)
        with Cons.prems(1) e Inr Some p have "h' = h1" by simp
        with f low show ?thesis by simp
      next
        case (Inr u)
        with Cons.prems(1) e \<open>od_get (obj_children (objects h copy)) key = Inr this\<close> Some p
        have rest: "heap_clone_children n reset cs copy h1 = Some (r, h')" by simp
        from f(2) Cons.prems(2) have c1: "copy < next_object h1" by simp
        from low Cons.prems(3) have k1: "\<forall>x \<in> set (obj_children (objects h1 copy)). copy < snd x"
          by simp
        from Cons.IH [OF rest c1 k1]
        have g: "extends (store h1) (store h')" "next_object h1 \<le> next_object h'"
          "\<forall>x \<le> copy. objects h' x = objects h1 x"
          by simp_all
        from f(1) g(1) have "extends (store h) (store h')" by (rule extends_trans)
        with f(2) g(2,3) low show ?thesis by simp
      qed
    qed
  qed
qed

lemma heap_call_reset_frame:
  "store (heap_call_reset reset a h) = store (reset a h)"
  "next_object (heap_call_reset reset a h) = next_object (reset a h)"
  "x \<noteq> a \<Longrightarrow> objects (heap_call_reset reset a h) x = objects (reset a h) x"
  "obj_parameters (objects (heap_call_reset reset a h) a) = obj_parameters (objects (reset a h) a)"
  "obj_buffers (objects (heap_call_reset reset a h) a) = obj_buffers (objects (reset a h) a)"
  "obj_children (objects (heap_call_reset reset a h) a) = obj_children (objects (reset a h) a)"
  by (simp_all add: heap_call_reset_def Let_def)

lemma make_cleared_copy:
  "store (heap_clear_registries (next_object h) (snd (make_shared obj h))) = store h"
  "next_object (heap_clear_registries (next_object h) (snd (make_shared obj h))) = Suc (next_object h)"
  "x \<noteq> next_object h \<Longrightarrow>
     objects (heap_clear_registries (next_object h) (snd (make_shared obj h))) x = objects h x"
  "obj_parameters (objects (heap_clear_registries (next_object h) (snd (make_shared obj h))) (next_object h)) = []"
  "obj_buffers (objects (heap_clear_registries (next_object h) (snd (make_shared obj h))) (next_object h)) = []"
  "obj_children (objects (heap_clear_registries (next_object h) (snd (make_shared obj h))) (next_object h)) = []"
  by (simp_all add: make_shared_def heap_clear_registries_def)

lemma fresh_objectsD:
  assumes "fresh_objects reset" "a < next_object h" "obj_parameters (objects h a) = []"
    "obj_buffers (objects h a) = []" "obj_children (objects h a) = []"
  shows "extends (store h) (store (reset a h))" and "next_object h \<le> next_object (reset a h)"
    and "\<forall>r < next_object h. r \<noteq> a \<longrightarrow> objects (reset a h) r = objects h r"
    and "snd ` set (obj_parameters (objects (reset a h) a)) \<subseteq> {allocated (store h) ..< allocated (store (reset a h))}"
    and "snd ` set (obj_buffers (objects (reset a h) a)) \<subseteq> {allocated (store h) ..< allocated (store (reset a h))}"
    and "snd ` set (obj_children (objects (reset a h) a)) \<subseteq> {next_object h ..< next_object (reset a h)}"
proof -
  from assms have "let h' = reset a h
         in extends (store h) (store h') \<and> next_object h \<le> next_object h' \<and>
            (\<forall>r < next_object h. r \<noteq> a \<longrightarrow> objects h' r = objects h r) \<and>
            snd ` set (obj_parameters (objects h' a)) \<subseteq> {allocated (store h) ..< allocated (store h')} \<and>
            snd ` set (obj_buffers (objects h' a)) \<subseteq> {allocated (store h) ..< allocated (store h')} \<and>
            snd ` set (obj_children (objects h' a)) \<subseteq> {next_object h ..< next_object h'}"
    unfolding fresh_objects_def by blast
  then show "extends (store h) (store (reset a h))" and "next_object h \<le> next_object (reset a h)"
    and "\<forall>r < next_object h. r \<noteq> a \<longrightarrow> objects (reset a h) r = objects h r"
    and "snd ` set (obj_parameters (objects (reset a h) a)) \<subseteq> {allocated (store h) ..< allocated (store (reset a h))}"
    and "snd ` set (obj_buffers (objects (reset a h) a)) \<subseteq> {allocated (store h) ..< allocated (store (reset a h))}"
    and "snd ` set (obj_children (objects (reset a h) a)) \<subseteq> {next_object h ..< next_object (reset a h)}"
    by (simp_all add: Let_def)
qed

text \<open>The heap after line 38: the copy is made, cleared and reset.\<close>

lemma heap_reset_copy_frame:
  fixes reset :: heap_reset_fn and h :: heap and obj :: object
  assumes f: "fresh_objects reset"
  defines "copy \<equiv> next_object h"
  defines "h1 \<equiv> heap_call_reset reset (next_object h)
      (heap_clear_registries (next_object h) (snd (make_shared obj h)))"
  shows "heap_extends h h1" and "copy < next_object h1"
    and "snd ` set (obj_parameters (objects h1 copy)) \<subseteq> {allocated (store h) ..< allocated (store h1)}"
    and "snd ` set (obj_buffers (objects h1 copy)) \<subseteq> {allocated (store h) ..< allocated (store h1)}"
    and "\<forall>x \<in> set (obj_children (objects h1 copy)). copy < snd x"
proof -
  define hc where "hc = heap_clear_registries (next_object h) (snd (make_shared obj h))"
  define hr where "hr = reset copy hc"
  have c: "store hc = store h" "next_object hc = Suc copy"
    "\<And>x. x \<noteq> copy \<Longrightarrow> objects hc x = objects h x"
    "obj_parameters (objects hc copy) = []" "obj_buffers (objects hc copy) = []"
    "obj_children (objects hc copy) = []"
    unfolding hc_def copy_def by (simp_all add: make_cleared_copy)
  from c(2) have lt: "copy < next_object hc" by simp
  note d = fresh_objectsD [OF f lt c(4-6), folded hr_def]
  have r: "store h1 = store hr" "next_object h1 = next_object hr"
    "\<And>x. x \<noteq> copy \<Longrightarrow> objects h1 x = objects hr x"
    "obj_parameters (objects h1 copy) = obj_parameters (objects hr copy)"
    "obj_buffers (objects h1 copy) = obj_buffers (objects hr copy)"
    "obj_children (objects h1 copy) = obj_children (objects hr copy)"
    unfolding h1_def hr_def hc_def copy_def by (simp_all add: heap_call_reset_frame)
  have old: "objects h1 x = objects h x" if "x < next_object h" for x
  proof -
    from that have x: "x \<noteq> copy" "x < next_object hc" by (simp_all add: copy_def c(2))
    from d(3) x have "objects hr x = objects hc x" by blast
    with r(3) [OF x(1)] c(3) [OF x(1)] show ?thesis by simp
  qed
  from d(1) c(1) r(1) have "extends (store h) (store h1)" by simp
  moreover from d(2) c(2) r(2) have "next_object h \<le> next_object h1" by (simp add: copy_def)
  ultimately show "heap_extends h h1" using old by (simp add: heap_extends_def)
  from d(2) c(2) r(2) show "copy < next_object h1" by simp
  from d(4) c(1) r(1,4) show "snd ` set (obj_parameters (objects h1 copy))
      \<subseteq> {allocated (store h) ..< allocated (store h1)}" by simp
  from d(5) c(1) r(1,5) show "snd ` set (obj_buffers (objects h1 copy))
      \<subseteq> {allocated (store h) ..< allocated (store h1)}" by simp
  from d(6) c(2) r(6) have "snd ` set (obj_children (objects h1 copy)) \<subseteq> {Suc copy ..< next_object hr}"
    by simp
  then show "\<forall>x \<in> set (obj_children (objects h1 copy)). copy < snd x" by fastforce
qed

lemma heap_clone_Suc:
  "heap_clone (Suc n) reset this h =
     (let copy = next_object h; h1 = reset_copy reset this h
      in if od_size (obj_parameters (objects h1 copy)) \<noteq> od_size (obj_parameters (objects h1 this))
         then Some (Inl (StructuralMismatch parameters_message), h1)
         else (case heap_copy_tensors (obj_parameters (objects h1 this)) (obj_parameters (objects h1 copy)) h1 of
           (Inl e, h2) \<Rightarrow> Some (Inl e, h2)
         | (Inr _, h2) \<Rightarrow>
             if od_size (obj_buffers (objects h2 copy)) \<noteq> od_size (obj_buffers (objects h2 this))
             then Some (Inl (StructuralMismatch buffers_message), h2)
             else (case heap_copy_tensors (obj_buffers (objects h2 this)) (obj_buffers (objects h2 copy)) h2 of
               (Inl e, h3) \<Rightarrow> Some (Inl e, h3)
             | (Inr _, h3) \<Rightarrow>
                 if od_size (obj_children (objects h3 copy)) \<noteq> od_size (obj_children (objects h3 this))
                 then Some (Inl (StructuralMismatch children_message), h3)
                 else (case heap_clone_children n reset (obj_children (objects h3 this)) copy h3 of
                   None \<Rightarrow> None
                 | Some (Inl e, h4) \<Rightarrow> Some (Inl e, h4)
                 | Some (Inr _, h4) \<Rightarrow> Some (Inr copy, h4)))))"
  unfolding heap_clone.simps reset_copy_def Let_def
  by (simp only: split_beta make_shared_def fst_conv snd_conv)

lemma heap_clone_outcome:
  assumes "heap_clone (Suc n) reset this h = Some (r, h')"
    and "heap_copy_tensors (obj_parameters (objects h1 this)) (obj_parameters (objects h1 copy)) h1 = (rp, h2)"
    and "heap_copy_tensors (obj_buffers (objects h2 this)) (obj_buffers (objects h2 copy)) h2 = (rb, h3)"
    and "h1 = reset_copy reset this h" and "copy = next_object h"
  shows "h' = h1 \<or> h' = h2 \<or> h' = h3 \<or>
      (\<exists>rc. heap_clone_children n reset (obj_children (objects h3 this)) copy h3 = Some (rc, h'))"
proof -
  from assms(1) have "(let copy = copy; h1 = h1
      in if od_size (obj_parameters (objects h1 copy)) \<noteq> od_size (obj_parameters (objects h1 this))
         then Some (Inl (StructuralMismatch parameters_message), h1)
         else (case heap_copy_tensors (obj_parameters (objects h1 this)) (obj_parameters (objects h1 copy)) h1 of
           (Inl e, h2) \<Rightarrow> Some (Inl e, h2)
         | (Inr _, h2) \<Rightarrow>
             if od_size (obj_buffers (objects h2 copy)) \<noteq> od_size (obj_buffers (objects h2 this))
             then Some (Inl (StructuralMismatch buffers_message), h2)
             else (case heap_copy_tensors (obj_buffers (objects h2 this)) (obj_buffers (objects h2 copy)) h2 of
               (Inl e, h3) \<Rightarrow> Some (Inl e, h3)
             | (Inr _, h3) \<Rightarrow>
                 if od_size (obj_children (objects h3 copy)) \<noteq> od_size (obj_children (objects h3 this))
                 then Some (Inl (StructuralMismatch children_message), h3)
                 else (case heap_clone_children n reset (obj_children (objects h3 this)) copy h3 of
                   None \<Rightarrow> None
                 | Some (Inl e, h4) \<Rightarrow> Some (Inl e, h4)
                 | Some (Inr _, h4) \<Rightarrow> Some (Inr copy, h4))))) = Some (r, h')"
    unfolding heap_clone_Suc assms(4,5) .
  with assms(2,3) show ?thesis
    by (auto simp: Let_def split: if_splits sum.splits option.splits)
qed

lemma heap_clone_frame:
  assumes f: "fresh_objects reset"
  shows "heap_clone n reset this h = Some (r, h') \<Longrightarrow> heap_extends h h'"
proof (induction n arbitrary: this h r h')
  case 0
  then show ?case by simp
next
  case (Suc n)
  define copy where "copy = next_object h"
  define h1 where "h1 = reset_copy reset this h"
  have a: "heap_extends h h1" "copy < next_object h1"
    "snd ` set (obj_parameters (objects h1 copy)) \<subseteq> {allocated (store h) ..< allocated (store h1)}"
    "snd ` set (obj_buffers (objects h1 copy)) \<subseteq> {allocated (store h) ..< allocated (store h1)}"
    "\<forall>x \<in> set (obj_children (objects h1 copy)). copy < snd x"
    unfolding h1_def copy_def reset_copy_def by (rule heap_reset_copy_frame [OF f])+
  obtain rp h2 where p: "heap_copy_tensors (obj_parameters (objects h1 this))
      (obj_parameters (objects h1 copy)) h1 = (rp, h2)"
    by (cases "heap_copy_tensors (obj_parameters (objects h1 this))
      (obj_parameters (objects h1 copy)) h1")
  note fp = heap_copy_tensors_frame [OF p]
  from a(3) have "\<forall>t < allocated (store h). t \<notin> snd ` set (obj_parameters (objects h1 copy))"
    by (metis atLeastLessThan_iff not_le subsetD)
  with fp(4) have t2: "\<forall>t < allocated (store h). storage (store h2) t = storage (store h1) t"
    by simp
  from a(1) fp(1-3) t2 have e2: "heap_extends h h2" by (simp add: heap_extends_def extends_def)
  obtain rb h3 where b: "heap_copy_tensors (obj_buffers (objects h2 this))
      (obj_buffers (objects h2 copy)) h2 = (rb, h3)"
    by (cases "heap_copy_tensors (obj_buffers (objects h2 this)) (obj_buffers (objects h2 copy)) h2")
  note fb = heap_copy_tensors_frame [OF b]
  from a(4) fp(1) have "\<forall>t < allocated (store h). t \<notin> snd ` set (obj_buffers (objects h2 copy))"
    by (metis atLeastLessThan_iff not_le subsetD)
  with fb(4) have t3: "\<forall>t < allocated (store h). storage (store h3) t = storage (store h2) t"
    by simp
  from e2 fb(1-3) t3 have e3: "heap_extends h h3" by (simp add: heap_extends_def extends_def)
  from heap_clone_outcome [OF Suc.prems p b h1_def copy_def]
  have "h' = h1 \<or> h' = h2 \<or> h' = h3 \<or>
      (\<exists>rc. heap_clone_children n reset (obj_children (objects h3 this)) copy h3 = Some (rc, h'))" .
  moreover have "heap_extends h h'"
    if k: "heap_clone_children n reset (obj_children (objects h3 this)) copy h3 = Some (rc, h')" for rc
  proof -
    from a(2) fp(2) fb(2) have lt: "copy < next_object h3" by simp
    from a(5) fp(1) fb(1) have ch: "\<forall>x \<in> set (obj_children (objects h3 copy)). copy < snd x"
      by simp
    from heap_clone_children_frame [OF Suc.IH k lt ch]
    have g: "extends (store h3) (store h')" "next_object h3 \<le> next_object h'"
      "\<forall>x \<le> copy. objects h' x = objects h3 x"
      by simp_all
    from e3 have "extends (store h) (store h3)" by (simp add: heap_extends_def)
    from this g(1) have "extends (store h) (store h')" by (rule extends_trans)
    moreover from e3 g(2) have "next_object h \<le> next_object h'" by (simp add: heap_extends_def)
    moreover from e3 g(3) have "\<forall>x < next_object h. objects h' x = objects h x"
      by (simp add: heap_extends_def copy_def)
    ultimately show ?thesis by (simp add: heap_extends_def)
  qed
  ultimately show ?case using a(1) e2 e3 by blast
qed

text \<open>
  C6, as the code has it. When \<open>reset()\<close> honours its contract, then after
  \<open>clone()\<close>, whether it returned a module or failed, every module object that existed
  when it was called has the fields it had (its parameter, buffer and child mapping among
  them), and every tensor that existed holds the data it held. The source, the modules of
  its tree and their tensors existed.
\<close>

theorem heap_clone_source_unchanged:
  assumes "fresh_objects reset" and "heap_clone n reset this h = Some (r, h')"
  shows "(\<forall>x < next_object h. objects h' x = objects h x) \<and>
         (\<forall>t < allocated (store h). storage (store h') t = storage (store h) t)"
  using heap_clone_frame [OF assms] by (simp add: heap_extends_def extends_def)


theorem heap_clone_source_unchanged_witness:
  "fresh_objects heap_example_reset \<and>
   heap_clone 3 heap_example_reset 0 example_heap =
     Some (Inr 2, snd (the (heap_clone 3 heap_example_reset 0 example_heap))) \<and>
   0 < next_object example_heap \<and> 1 < next_object example_heap \<and>
   objects (snd (the (heap_clone 3 heap_example_reset 0 example_heap))) 0 = objects example_heap 0 \<and>
   objects (snd (the (heap_clone 3 heap_example_reset 0 example_heap))) 1 = objects example_heap 1 \<and>
   0 < allocated (store example_heap) \<and> 1 < allocated (store example_heap) \<and>
   storage (store (snd (the (heap_clone 3 heap_example_reset 0 example_heap)))) 0 = [1, 2] \<and>
   storage (store (snd (the (heap_clone 3 heap_example_reset 0 example_heap)))) 1 = [3]"
proof -
  let ?h' = "snd (the (heap_clone 3 heap_example_reset 0 example_heap))"
  have "heap_clone 3 heap_example_reset 0 example_heap \<noteq> None \<and>
      fst (the (heap_clone 3 heap_example_reset 0 example_heap)) = Inr 2"
    by (simp add: heap_defs Let_def numeral_3_eq_3)
  then have c: "heap_clone 3 heap_example_reset 0 example_heap = Some (Inr 2, ?h')"
    by (metis option.collapse prod.collapse)
  have n: "0 < next_object example_heap" "1 < next_object example_heap"
    "0 < allocated (store example_heap)" "1 < allocated (store example_heap)"
    by (simp_all add: example_heap_def example_state_def)
  note t = heap_clone_source_unchanged [OF fresh_heap_example c]
  from t n(1) have o0: "objects ?h' 0 = objects example_heap 0" by blast
  from t n(2) have o1: "objects ?h' 1 = objects example_heap 1" by blast
  from t n(3) have "storage (store ?h') 0 = storage (store example_heap) 0" by blast
  then have s0: "storage (store ?h') 0 = [1, 2]" by (simp add: example_heap_def example_state_def)
  from t n(4) have "storage (store ?h') 1 = storage (store example_heap) 1" by blast
  then have s1: "storage (store ?h') 1 = [3]" by (simp add: example_heap_def example_state_def)
  from fresh_heap_example c n o0 o1 s0 s1 show ?thesis by blast
qed

text \<open>
  C6 as the spec states it, for every module, fails. Cloning the \<open>Holder\<close> returns a
  module, and the child of the source (object 1) then has the parameter tensors 4 and 5
  where it had 0 and 1: \<open>clone_\<close> assigned to it, since \<open>reset()\<close> registered it in
  the copy. Cloning the \<open>Swap\<close> returns a module, and the source's tensor 1 then holds
  the data of tensor 0: the copy loop wrote to it, since \<open>reset()\<close> registered it in the
  copy under the other name.
\<close>

theorem clone_mutates_source:
  "obj_parameters (objects holder_heap 1) = [(''weight'', 0), (''bias'', 1)] \<and>
   heap_clone 3 aliasing_reset 0 holder_heap \<noteq> None \<and>
   fst (the (heap_clone 3 aliasing_reset 0 holder_heap)) = Inr 2 \<and>
   obj_parameters (objects (snd (the (heap_clone 3 aliasing_reset 0 holder_heap))) 1) =
     [(''weight'', 4), (''bias'', 5)] \<and>
   storage (store swap_heap) 1 = [3] \<and>
   heap_clone 3 aliasing_reset 0 swap_heap \<noteq> None \<and>
   fst (the (heap_clone 3 aliasing_reset 0 swap_heap)) = Inr 1 \<and>
   storage (store (snd (the (heap_clone 3 aliasing_reset 0 swap_heap)))) 1 = [1, 2]"
  by (simp add: heap_defs Let_def numeral_3_eq_3)

end
